theory Spec2Isabelle
  imports Complex_Main "HOL-Library.Sublist" "HOL-Library.Product_Lexorder"
    "HOL-Library.Option_ord" "HOL-Library.AList"
begin

section \<open>String matching (shared/utils/string-matching.ts)\<close>

text \<open>
  JavaScript strings are sequences of code units; they are modelled as \<open>string\<close>, each
  \<open>char\<close> standing for the code unit U+0000..U+00FF of the same number. JavaScript
  numbers are modelled as exact rationals: the scores below are sums, halves and
  quotients of small integers, and rounding is not part of the model.
  \<open>toLowerCase\<close> maps A..Z and the upper-case letters of the Latin-1 block
  (U+00C0..U+00DE without the multiplication sign U+00D7) to the letter 32 places later.
\<close>

definition toLowerCase_char :: "char \<Rightarrow> char" where
  "toLowerCase_char c =
     (let n = (of_char c :: nat)
      in if (65 \<le> n \<and> n \<le> 90) \<or> (192 \<le> n \<and> n \<le> 222 \<and> n \<noteq> 215)
         then char_of (n + 32) else c)"

definition toLowerCase :: "string \<Rightarrow> string" where
  "toLowerCase s = map toLowerCase_char s"

text \<open>
  The inner loop of \<open>jaroSimilarity\<close>:
  \<^verbatim>\<open>for (let j = start; j < end; j++) { if (s2Matches[j] || s1[i] !== s2[j]) continue; ...; break; }\<close>
  yields the first \<open>j\<close> of the window that is free and carries the same character.
\<close>

fun find_match :: "char \<Rightarrow> string \<Rightarrow> bool list \<Rightarrow> nat list \<Rightarrow> nat option" where
  "find_match c s2 s2Matches [] = None"
| "find_match c s2 s2Matches (j # js) =
     (if s2Matches ! j \<or> c \<noteq> s2 ! j then find_match c s2 s2Matches js else Some j)"

text \<open>The outer matching loop over \<open>i = 0 .. len1 - 1\<close>; the state is
  \<open>(s1Matches, s2Matches, matches)\<close>. \<open>matchWindow\<close> is \<open>-1\<close> when both strings
  have one character, so it is an integer and the window bounds are clamped as
  \<open>Math.max\<close> and \<open>Math.min\<close> do.\<close>

fun match_loop ::
  "string \<Rightarrow> string \<Rightarrow> int \<Rightarrow> nat list \<Rightarrow> bool list \<times> bool list \<times> nat
     \<Rightarrow> bool list \<times> bool list \<times> nat" where
  "match_loop s1 s2 matchWindow [] st = st"
| "match_loop s1 s2 matchWindow (i # is) (s1Matches, s2Matches, matches) =
     (let start = nat (max 0 (int i - matchWindow));
          stop = nat (min (int i + matchWindow + 1) (int (length s2)))
      in case find_match (s1 ! i) s2 s2Matches [start..<stop] of
           None \<Rightarrow> match_loop s1 s2 matchWindow is (s1Matches, s2Matches, matches)
         | Some j \<Rightarrow>
             match_loop s1 s2 matchWindow is
               (s1Matches[i := True], s2Matches[j := True], matches + 1))"

text \<open>
  \<^verbatim>\<open>while (!s2Matches[k]) k++;\<close> reads \<open>undefined\<close> past the end of the array, and
  \<open>!undefined\<close> is true: from there on the loop never exits. The model returns
  \<open>None\<close> in that case.
\<close>

function skip_unmatched :: "bool list \<Rightarrow> nat \<Rightarrow> nat option" where
  "skip_unmatched s2Matches k =
     (if length s2Matches \<le> k then None
      else if s2Matches ! k then Some k
      else skip_unmatched s2Matches (Suc k))"
  by pat_completeness auto
termination
  by (relation "measure (\<lambda>(m, k). length m - k)") auto

declare skip_unmatched.simps [simp del]

text \<open>The transposition loop; the state is \<open>(k, transpositions)\<close>.\<close>

fun transp_loop ::
  "string \<Rightarrow> string \<Rightarrow> bool list \<Rightarrow> bool list \<Rightarrow> nat list \<Rightarrow> nat \<Rightarrow> nat \<Rightarrow> nat option" where
  "transp_loop s1 s2 s1Matches s2Matches [] k transpositions = Some transpositions"
| "transp_loop s1 s2 s1Matches s2Matches (i # is) k transpositions =
     (if \<not> s1Matches ! i then transp_loop s1 s2 s1Matches s2Matches is k transpositions
      else case skip_unmatched s2Matches k of
             None \<Rightarrow> None
           | Some k' \<Rightarrow>
               transp_loop s1 s2 s1Matches s2Matches is (Suc k')
                 (if s1 ! i \<noteq> s2 ! k' then transpositions + 1 else transpositions))"

text \<open>\<open>jaroSimilarity\<close>; \<open>None\<close> stands for a call that does not return.\<close>

definition jaroSimilarity :: "string \<Rightarrow> string \<Rightarrow> rat option" where
  "jaroSimilarity str1 str2 =
     (if str1 = [] \<or> str2 = [] then Some 0
      else if str1 = str2 then Some 1
      else
        let s1 = toLowerCase str1;
            s2 = toLowerCase str2;
            len1 = length s1;
            len2 = length s2;
            matchWindow = int (max len1 len2 div 2) - 1;
            (s1Matches, s2Matches, matches) =
               match_loop s1 s2 matchWindow [0..<len1]
                 (replicate len1 False, replicate len2 False, 0)
        in if matches = 0 then Some 0
           else case transp_loop s1 s2 s1Matches s2Matches [0..<len1] 0 0 of
                  None \<Rightarrow> None
                | Some transpositions \<Rightarrow>
                    Some ((of_nat matches / of_nat len1 + of_nat matches / of_nat len2
                           + (of_nat matches - of_nat transpositions / 2) / of_nat matches) / 3))"

text \<open>The prefix loop of \<open>jaroWinklerSimilarity\<close>:
  \<^verbatim>\<open>for (let i = 0; i < maxPrefix; i++) { if (s1[i] === s2[i]) prefix++; else break; }\<close>\<close>

fun prefix_loop :: "string \<Rightarrow> string \<Rightarrow> nat list \<Rightarrow> nat \<Rightarrow> nat" where
  "prefix_loop s1 s2 [] prefixLen = prefixLen"
| "prefix_loop s1 s2 (i # is) prefixLen =
     (if s1 ! i = s2 ! i then prefix_loop s1 s2 is (prefixLen + 1) else prefixLen)"

definition jaroWinklerSimilarity :: "string \<Rightarrow> string \<Rightarrow> rat option" where
  "jaroWinklerSimilarity str1 str2 =
     (case jaroSimilarity str1 str2 of
        None \<Rightarrow> None
      | Some jaro \<Rightarrow>
          if jaro < 7 / 10 then Some jaro
          else
            let s1 = toLowerCase str1;
                s2 = toLowerCase str2;
                maxPrefix = min 4 (min (length s1) (length s2));
                prefixLen = prefix_loop s1 s2 [0..<maxPrefix] 0
            in Some (jaro + of_nat prefixLen * (1 / 10) * (1 - jaro)))"

text \<open>The prefix length in the words of the specification: the length of the common
  prefix of the two case-normalized strings, capped at 4.\<close>

definition commonPrefixLength :: "string \<Rightarrow> string \<Rightarrow> nat" where
  "commonPrefixLength str1 str2 =
     min 4 (length (longest_common_prefix (toLowerCase str1) (toLowerCase str2)))"

text \<open>
  \<open>levenshteinDistance\<close>: the matrix is filled row by row; \<open>lev_row\<close> computes the
  cells \<open>matrix[i][1..]\<close> from the previous row (\<open>prev\<close> is its suffix starting at
  column \<open>j - 1\<close>) and the cell to the left.
\<close>

fun lev_row :: "char \<Rightarrow> string \<Rightarrow> nat list \<Rightarrow> nat \<Rightarrow> nat list" where
  "lev_row c [] prev left = []"
| "lev_row c (d # ds) prev left =
     (let cost = (if c = d then 0 else 1);
          v = min (min (prev ! 1 + 1) (left + 1)) (prev ! 0 + cost)
      in v # lev_row c ds (tl prev) v)"

fun lev_rows :: "string \<Rightarrow> string \<Rightarrow> nat \<Rightarrow> nat list \<Rightarrow> nat list" where
  "lev_rows [] s2 i row = row"
| "lev_rows (c # cs) s2 i row = lev_rows cs s2 (Suc i) (Suc i # lev_row c s2 row (Suc i))"

definition levenshteinDistance :: "string \<Rightarrow> string \<Rightarrow> nat" where
  "levenshteinDistance str1 str2 =
     (if str1 = [] \<or> str2 = [] then max (length str1) (length str2)
      else
        let s1 = toLowerCase str1;
            s2 = toLowerCase str2
        in last (lev_rows s1 s2 0 [0..<Suc (length s2)]))"

section \<open>Decision rules and FHIR resources (shared/types)\<close>

datatype MatchAlgorithm = Exact | Levenshtein | JaroWinkler
datatype NullHandling = Conservative | Moderate | Greedy
datatype MatchingType = Deterministic | Probabilistic
datatype MatchLevel = AutoMatch | PotentialMatch | NoMatch

record FieldRule =
  algorithm :: MatchAlgorithm
  threshold :: "rat option"
  fhirpath :: string
  weight :: rat
  null_handling :: NullHandling
  null_handling_both :: NullHandling
  espath :: string
  description :: string

text \<open>\<open>fields\<close> (here \<open>rule_fields\<close>) is a JavaScript object; \<open>Object.entries\<close> lists it in insertion
  order, so it is an association list.\<close>

record MatchingRule =
  matchingType :: MatchingType
  rule_description :: string
  rule_fields :: "(string \<times> FieldRule) list"
  autoMatchThreshold :: rat
  potentialMatchThreshold :: rat

text \<open>\<open>MatchScore\<close> without its \<open>details\<close> string, which is only logged.\<close>

record MatchScore =
  totalScore :: rat
  fieldScores :: "(string \<times> rat) list"
  matchLevel :: MatchLevel

text \<open>The fields of \<open>Identifier\<close>, \<open>HumanName\<close> and \<open>FHIRPatient\<close> that the
  services read; the remaining fields of a patient live in the extension slot of the
  record. Where a field name of the source is taken in Isabelle it gets a prefix or a
  suffix: \<open>system\<close> and \<open>value\<close> are \<open>ident_system\<close> and \<open>ident_value\<close>, \<open>id\<close>
  is \<open>patient_id\<close>, \<open>identifier\<close> is \<open>identifierList\<close>. The unions
  \<open>MatchAlgorithm\<close> and \<open>NullHandling\<close> above are closed: the \<open>default\<close> cases of
  the switches over them, which return 0, are taken by no value of these types.\<close>

record Identifier =
  ident_system :: "string option"
  ident_value :: "string option"

record HumanName =
  family :: "string option"
  given :: "string list option"

record FHIRPatient =
  resourceType :: string
  patient_id :: "string option"
  identifierList :: "Identifier list option"
  name :: "HumanName list option"
  gender :: "string option"
  birthDate :: "string option"

record FHIRBundle =
  entry :: "FHIRPatient list option"

record DuplicateMatch =
  patient :: FHIRPatient
  score :: MatchScore

section \<open>Duplicate detection (services/duplicate-detection-service.ts)\<close>

text \<open>\<open>v || null\<close> on an optional string: \<open>undefined\<close> and the empty string are
  falsy.\<close>

definition js_truthy :: "string option \<Rightarrow> bool" where
  "js_truthy v = (case v of None \<Rightarrow> False | Some s \<Rightarrow> s \<noteq> [])"

definition js_or_null :: "string option \<Rightarrow> string option" where
  "js_or_null v = (if js_truthy v then v else None)"

text \<open>The expression to the left of \<open>|| null\<close> in each case of the \<open>switch\<close> of
  \<open>extractFieldValue\<close>.\<close>

definition fieldAtPath :: "'a FHIRPatient_scheme \<Rightarrow> string \<Rightarrow> string option" where
  "fieldAtPath p path =
     (if path = ''identifier.neotreeId'' then
        (case identifierList p of
           None \<Rightarrow> None
         | Some ids \<Rightarrow>
             (case find (\<lambda>i. ident_system i = Some ''urn:neotree:impilo-id'') ids of
                None \<Rightarrow> None | Some i \<Rightarrow> ident_value i))
      else if path = ''identifier.patientId'' then
        (case identifierList p of
           None \<Rightarrow> None
         | Some ids \<Rightarrow>
             (case find (\<lambda>i. ident_system i = Some ''urn:impilo:uid'') ids of
                None \<Rightarrow> None | Some i \<Rightarrow> ident_value i))
      else if path = ''birthDate'' then birthDate p
      else if path = ''family'' then
        (case name p of
           None \<Rightarrow> None
         | Some ns \<Rightarrow> (if ns = [] then None else family (last ns)))
      else if path = ''given'' then
        (case name p of
           None \<Rightarrow> None
         | Some ns \<Rightarrow>
             (if ns = [] then None
              else case given (last ns) of
                     None \<Rightarrow> None
                   | Some gs \<Rightarrow> (case gs of [] \<Rightarrow> None | g # _ \<Rightarrow> Some g)))
      else if path = ''gender'' then gender p
      else None)"

definition extractFieldValue :: "'a FHIRPatient_scheme \<Rightarrow> FieldRule \<Rightarrow> string option" where
  "extractFieldValue p fieldRule = js_or_null (fieldAtPath p (espath fieldRule))"

definition getNullScore :: "NullHandling \<Rightarrow> rat \<Rightarrow> rat" where
  "getNullScore handling w =
     (case handling of Conservative \<Rightarrow> 0 | Moderate \<Rightarrow> w * (1 / 2) | Greedy \<Rightarrow> w)"

definition handleBothNull :: "FieldRule \<Rightarrow> rat" where
  "handleBothNull fieldRule = getNullScore (null_handling_both fieldRule) (weight fieldRule)"

definition handleOneNull :: "FieldRule \<Rightarrow> rat" where
  "handleOneNull fieldRule = getNullScore (null_handling fieldRule) (weight fieldRule)"

text \<open>\<open>fieldRule.threshold || d\<close>: an absent threshold and the threshold 0 are falsy.\<close>

definition threshold_or :: "rat option \<Rightarrow> rat \<Rightarrow> rat" where
  "threshold_or t d = (case t of None \<Rightarrow> d | Some x \<Rightarrow> if x = 0 then d else x)"

text \<open>\<open>compareFields\<close>; \<open>None\<close> only if \<open>jaroWinklerSimilarity\<close> does not return.\<close>

definition compareFields :: "string option \<Rightarrow> string option \<Rightarrow> FieldRule \<Rightarrow> rat option" where
  "compareFields value1 value2 fieldRule =
     (case (value1, value2) of
        (None, None) \<Rightarrow> Some (handleBothNull fieldRule)
      | (None, Some v2) \<Rightarrow> Some (handleOneNull fieldRule)
      | (Some v1, None) \<Rightarrow> Some (handleOneNull fieldRule)
      | (Some v1, Some v2) \<Rightarrow>
          (case algorithm fieldRule of
             Exact \<Rightarrow> Some (if v1 = v2 then weight fieldRule else 0)
           | Levenshtein \<Rightarrow>
               (let distance = levenshteinDistance v1 v2;
                    t = threshold_or (threshold fieldRule) 2
                in Some (if of_nat distance \<le> t then weight fieldRule else 0))
           | JaroWinkler \<Rightarrow>
               (case jaroWinklerSimilarity v1 v2 of
                  None \<Rightarrow> None
                | Some similarity \<Rightarrow>
                    (let t = threshold_or (threshold fieldRule) (17 / 20)
                     in Some (if t \<le> similarity then weight fieldRule else 0)))))"

text \<open>The loop of \<open>calculateMatchScore\<close> over \<open>Object.entries(rule.fields)\<close>; the
  state is \<open>(fieldScores, totalScore)\<close>.\<close>

fun score_fields ::
  "'a FHIRPatient_scheme \<Rightarrow> 'b FHIRPatient_scheme \<Rightarrow> (string \<times> FieldRule) list
     \<Rightarrow> (string \<times> rat) list \<times> rat \<Rightarrow> ((string \<times> rat) list \<times> rat) option" where
  "score_fields patient1 patient2 [] acc = Some acc"
| "score_fields patient1 patient2 ((fieldName, fieldRule) # rest) (fs, tot) =
     (let value1 = extractFieldValue patient1 fieldRule;
          value2 = extractFieldValue patient2 fieldRule
      in case compareFields value1 value2 fieldRule of
           None \<Rightarrow> None
         | Some sc \<Rightarrow>
             score_fields patient1 patient2 rest (AList.update fieldName sc fs, tot + sc))"

definition calculateMatchScore ::
  "'a FHIRPatient_scheme \<Rightarrow> 'b FHIRPatient_scheme \<Rightarrow> MatchingRule \<Rightarrow> MatchScore option" where
  "calculateMatchScore patient1 patient2 rule =
     (case score_fields patient1 patient2 (rule_fields rule) ([], 0) of
        None \<Rightarrow> None
      | Some (fs, tot) \<Rightarrow>
          Some \<lparr> totalScore = tot, fieldScores = fs,
                 matchLevel =
                   (if autoMatchThreshold rule \<le> tot then AutoMatch
                    else if potentialMatchThreshold rule \<le> tot then PotentialMatch
                    else NoMatch) \<rparr>)"

fun best_loop ::
  "'a FHIRPatient_scheme \<Rightarrow> 'b FHIRPatient_scheme \<Rightarrow> MatchingRule list \<Rightarrow> MatchScore
     \<Rightarrow> MatchScore option" where
  "best_loop patient1 patient2 [] bestScore = Some bestScore"
| "best_loop patient1 patient2 (rule # rules) bestScore =
     (case calculateMatchScore patient1 patient2 rule of
        None \<Rightarrow> None
      | Some sc \<Rightarrow>
          best_loop patient1 patient2 rules
            (if totalScore bestScore < totalScore sc then sc else bestScore))"

definition calculateBestMatchScore ::
  "MatchingRule list \<Rightarrow> 'a FHIRPatient_scheme \<Rightarrow> 'b FHIRPatient_scheme \<Rightarrow> MatchScore option" where
  "calculateBestMatchScore rules patient1 patient2 =
     best_loop patient1 patient2 rules
       \<lparr> totalScore = 0, fieldScores = [], matchLevel = NoMatch \<rparr>"

fun collect_matches ::
  "MatchingRule list \<Rightarrow> 'a FHIRPatient_scheme \<Rightarrow> FHIRPatient list \<Rightarrow> DuplicateMatch list
     \<Rightarrow> DuplicateMatch list option" where
  "collect_matches rules p [] matches = Some matches"
| "collect_matches rules p (candidate # candidates) matches =
     (case calculateBestMatchScore rules p candidate of
        None \<Rightarrow> None
      | Some bestScore \<Rightarrow>
          collect_matches rules p candidates
            (if matchLevel bestScore \<noteq> NoMatch
             then matches @ [\<lparr> patient = candidate, score = bestScore \<rparr>]
             else matches))"

text \<open>\<open>Array.prototype.sort\<close> is stable; with the comparator
  \<open>b.score.totalScore - a.score.totalScore\<close> it is the stable sort by descending
  \<open>totalScore\<close>.\<close>

definition findPotentialDuplicates ::
  "MatchingRule list \<Rightarrow> 'a FHIRPatient_scheme \<Rightarrow> FHIRBundle \<Rightarrow> DuplicateMatch list option" where
  "findPotentialDuplicates rules p searchResults =
     (case entry searchResults of
        None \<Rightarrow> Some []
      | Some es \<Rightarrow>
          if es = [] then Some []
          else
            (let candidates = filter (\<lambda>c. resourceType c = ''Patient'') es
             in (case collect_matches rules p candidates [] of
                   None \<Rightarrow> None
                 | Some matches \<Rightarrow>
                     Some (sort_key (\<lambda>m. - totalScore (score m)) matches))))"

section \<open>Merging on auto-match (services/missing-data-handler.ts, adapter-service.ts)\<close>

text \<open>\<open>!merged.name || merged.name.length === 0 || !merged.name[0].family\<close>\<close>

definition name_missing :: "HumanName list option \<Rightarrow> bool" where
  "name_missing ns =
     (case ns of
        None \<Rightarrow> True
      | Some [] \<Rightarrow> True
      | Some (n # _) \<Rightarrow> \<not> js_truthy (family n))"

text \<open>\<open>x && x.length > 0\<close> and \<open>!x || x.length === 0\<close> on an optional array.\<close>

definition nonempty_array :: "'a list option \<Rightarrow> bool" where
  "nonempty_array xs = (case xs of None \<Rightarrow> False | Some l \<Rightarrow> l \<noteq> [])"

text \<open>\<open>mergePatientData\<close>: \<open>{ ...newPatient }\<close> copies every field, then the four
  conditional assignments follow in the order of the source.\<close>

definition mergePatientData ::
  "'a FHIRPatient_scheme \<Rightarrow> 'b FHIRPatient_scheme \<Rightarrow> 'a FHIRPatient_scheme" where
  "mergePatientData newPatient existingPatient =
     (let merged = newPatient;
          merged = (if \<not> nonempty_array (identifierList merged)
                    then merged\<lparr>identifierList := identifierList existingPatient\<rparr>
                    else merged);
          merged = (if \<not> js_truthy (birthDate merged) \<and> js_truthy (birthDate existingPatient)
                    then merged\<lparr>birthDate := birthDate existingPatient\<rparr>
                    else merged);
          merged = (if \<not> js_truthy (gender merged) \<and> js_truthy (gender existingPatient)
                    then merged\<lparr>gender := gender existingPatient\<rparr>
                    else merged);
          merged = (if name_missing (name merged)
                    then (if nonempty_array (name existingPatient)
                          then merged\<lparr>name := name existingPatient\<rparr>
                          else merged)
                    else merged)
      in merged)"

text \<open>The auto-match branch of \<open>processEntry\<close>:
  \<^verbatim>\<open>finalPatient = mergePatientData(patient, match.patient); finalPatient.id = match.patient.id;\<close>\<close>

definition autoMatchMerge ::
  "'a FHIRPatient_scheme \<Rightarrow> 'b FHIRPatient_scheme \<Rightarrow> 'a FHIRPatient_scheme" where
  "autoMatchMerge p existingPatient =
     (mergePatientData p existingPatient)\<lparr>patient_id := patient_id existingPatient\<rparr>"

section \<open>The CDC tables and SQL functions (database/setup-cdc.sql)\<close>

text \<open>
  A \<open>TIMESTAMP\<close> of the database is an integer number of microseconds, the resolution
  of PostgreSQL. The service receives a timestamp column as a JavaScript \<open>Date\<close>, which
  counts whole milliseconds: the microseconds below the millisecond are dropped on the
  way in (\<open>to_Date\<close>), and a \<open>Date\<close> passed as a query parameter arrives in the database
  as a timestamp on a whole millisecond (\<open>of_Date\<close>). Row ids are integers
  (\<open>BIGINT\<close>, \<open>SERIAL\<close>). A \<open>JSONB\<close> document is kept as its JSON text.
\<close>

type_synonym timestamp = int
type_synonym js_date = int

definition to_Date :: "timestamp \<Rightarrow> js_date" where
  "to_Date t = t div 1000"

definition of_Date :: "js_date \<Rightarrow> timestamp" where
  "of_Date d = d * 1000"

record session_row =
  sess_id :: int
  sess_ingested_at :: timestamp
  sess_time :: timestamp
  sess_impilo_uid :: "string option"
  sess_data :: string

record watermark_row =
  table_name :: string
  last_ingested_at :: timestamp
  last_processed_id :: "int option"
  records_processed :: int
  wm_last_error :: "string option"
  updated_at :: timestamp

record failed_row =
  failed_id :: int
  session_id :: int
  failed_ingested_at :: timestamp
  attempt_count :: int
  last_error :: "string option"
  last_attempt_at :: "timestamp option"
  created_at :: timestamp
  failed_impilo_uid :: "string option"
  failed_impilo_id :: "string option"
  failed_data :: string
  synced :: bool

text \<open>The database: the source tables by name, the rows of the two CDC tables, and the
  sequence behind \<open>cdc_failed_records.id\<close>.\<close>

record database =
  source_rows :: "string \<Rightarrow> session_row list"
  cdc_watermark :: "watermark_row list"
  cdc_failed_records :: "failed_row list"
  failed_seq :: int

datatype cdc_error = NoWatermark | QueryFailed

text \<open>
  \<open>get_new_sessions(batch_size)\<close>. The watermark and the table name come from
  \<^verbatim>\<open>SELECT ... FROM cdc_watermark w LIMIT 1\<close>, which has no \<open>ORDER BY\<close>: which row it
  yields when there are several is up to the executor, so the choice is the argument
  \<open>limit1\<close>. The rows are those of the named table with
  \<open>ingested_at > last_watermark\<close>, compared as timestamps of the database,
  \<open>ORDER BY ingested_at ASC, id ASC LIMIT batch_size\<close>.
\<close>

definition get_new_sessions :: "database \<Rightarrow> nat \<Rightarrow> nat \<Rightarrow> cdc_error + session_row list" where
  "get_new_sessions db limit1 batch_size =
     (if cdc_watermark db = [] then Inl NoWatermark
      else
        (let w = cdc_watermark db ! (limit1 mod length (cdc_watermark db))
         in Inr (take batch_size
                   (sort_key (\<lambda>s. (sess_ingested_at s, sess_id s))
                      (filter (\<lambda>s. last_ingested_at w < sess_ingested_at s)
                         (source_rows db (table_name w)))))))"

text \<open>\<open>update_watermark\<close> writes the row of the given table, whatever position that row
  holds.\<close>

definition update_watermark ::
  "timestamp \<Rightarrow> string \<Rightarrow> timestamp \<Rightarrow> int \<Rightarrow> int \<Rightarrow> database \<Rightarrow> database" where
  "update_watermark now p_table_name p_last_ingested_at p_last_processed_id p_records_count db =
     db\<lparr>cdc_watermark :=
          map (\<lambda>w. if table_name w = p_table_name
                    then w\<lparr>last_ingested_at := p_last_ingested_at,
                           last_processed_id := Some p_last_processed_id,
                           records_processed := records_processed w + p_records_count,
                           updated_at := now,
                           wm_last_error := None\<rparr>
                    else w)
              (cdc_watermark db)\<rparr>"

text \<open>\<open>INSERT INTO cdc_failed_records ... ON CONFLICT (session_id) DO UPDATE SET ...\<close>:
  \<open>on_conflict\<close> is the \<open>DO UPDATE\<close> clause applied to the existing row. The default
  of the \<open>id\<close> column draws from the sequence before the conflict is detected.\<close>

definition insert_on_conflict ::
  "failed_row \<Rightarrow> (failed_row \<Rightarrow> failed_row) \<Rightarrow> database \<Rightarrow> database" where
  "insert_on_conflict new_row on_conflict db =
     (let next_id = failed_seq db + 1
      in if \<exists>f \<in> set (cdc_failed_records db). session_id f = session_id new_row
         then db\<lparr>cdc_failed_records :=
                   map (\<lambda>f. if session_id f = session_id new_row then on_conflict f else f)
                     (cdc_failed_records db),
                 failed_seq := next_id\<rparr>
         else db\<lparr>cdc_failed_records :=
                   cdc_failed_records db @ [new_row\<lparr>failed_id := next_id\<rparr>],
                 failed_seq := next_id\<rparr>)"

definition record_failed_session ::
  "timestamp \<Rightarrow> int \<Rightarrow> timestamp \<Rightarrow> string \<Rightarrow> string option \<Rightarrow> string \<Rightarrow> bool
     \<Rightarrow> database \<Rightarrow> database" where
  "record_failed_session now p_session_id p_ingested_at p_error p_impilo_id p_data p_synced db =
     insert_on_conflict
       \<lparr> failed_id = 0, session_id = p_session_id, failed_ingested_at = p_ingested_at,
         attempt_count = 1, last_error = Some p_error, last_attempt_at = Some now,
         created_at = now, failed_impilo_uid = None, failed_impilo_id = p_impilo_id,
         failed_data = p_data, synced = p_synced \<rparr>
       (\<lambda>f. f\<lparr>last_error := Some p_error, last_attempt_at := Some now,
               attempt_count := attempt_count f + 1, synced := p_synced\<rparr>)
       db"

definition remove_failed_session :: "int \<Rightarrow> database \<Rightarrow> database" where
  "remove_failed_session p_id db =
     db\<lparr>cdc_failed_records := filter (\<lambda>f. failed_id f \<noteq> p_id) (cdc_failed_records db)\<rparr>"

definition update_failed_session_retry ::
  "timestamp \<Rightarrow> int \<Rightarrow> string \<Rightarrow> bool \<Rightarrow> database \<Rightarrow> database" where
  "update_failed_session_retry now p_id p_error p_synced db =
     db\<lparr>cdc_failed_records :=
          map (\<lambda>f. if failed_id f = p_id
                    then f\<lparr>last_error := Some p_error, last_attempt_at := Some now,
                           attempt_count := attempt_count f + 1, synced := p_synced\<rparr>
                    else f)
              (cdc_failed_records db)\<rparr>"

section \<open>The CDC service (services/cdc-service.ts)\<close>

text \<open>The row of \<open>get_new_sessions\<close> as the service holds it (\<open>CDCRecord\<close>): the two
  timestamps are \<open>Date\<close>s. The function returns no \<open>impilo_id\<close> column, so that field is
  \<open>undefined\<close> on every fetched row.\<close>

record CDCRecord =
  rec_id :: int
  ingested_at :: js_date
  time :: js_date
  impilo_uid :: "string option"
  impilo_id :: "string option"
  data :: string

definition to_record :: "session_row \<Rightarrow> CDCRecord" where
  "to_record s =
     \<lparr> rec_id = sess_id s, ingested_at = to_Date (sess_ingested_at s),
       time = to_Date (sess_time s), impilo_uid = sess_impilo_uid s, impilo_id = None,
       data = sess_data s \<rparr>"

text \<open>
  What a poll cycle takes from outside: the configuration; the processing callback
  (\<open>convertToNeotreeEntry\<close> followed by \<open>adapterService.processEntry\<close>; \<open>None\<close> when it
  returns, \<open>Some message\<close> when it throws an error with that message); the JSON text of a
  document after \<open>convertToNeotreeEntry\<close> has assigned \<open>entry.impilo_uid = impilo_uid\<close>
  in it (\<open>set_impilo_uid\<close>; the document itself when the function throws before the
  assignment); the clock read by \<open>NOW()\<close>; the row that \<open>LIMIT 1\<close> yields; and for each
  database query of the cycle whether \<open>pool.query\<close> throws.
\<close>

record poll_env =
  sourceTable :: string
  batchSize :: nat
  processEntry :: "CDCRecord \<Rightarrow> string option"
  set_impilo_uid :: "string \<Rightarrow> string \<Rightarrow> string"
  now :: timestamp
  limit1 :: nat
  fetch_throws :: bool
  insert_throws :: "CDCRecord \<Rightarrow> bool"
  update_throws :: bool

text \<open>The service object: \<open>isPolling\<close>, whether the two cron tasks are scheduled, and
  the numbers of poll and retry cycles that have started and not yet completed.\<close>

record CDCService =
  isPolling :: bool
  pollTask :: bool
  retryTask :: bool
  pollsInFlight :: nat
  retriesInFlight :: nat

text \<open>\<open>JSON.stringify(record.data)\<close> in \<open>recordFailure\<close>: \<open>convertToNeotreeEntry\<close> has
  run on \<open>record.data\<close> before, and with a truthy \<open>impilo_uid\<close> it has written it into
  the same object.\<close>

definition stringified_data :: "poll_env \<Rightarrow> CDCRecord \<Rightarrow> string" where
  "stringified_data env r =
     (case js_or_null (impilo_uid r) of
        None \<Rightarrow> data r
      | Some uid \<Rightarrow> set_impilo_uid env uid (data r))"

text \<open>\<open>recordFailure\<close>: the error of a failed insert is caught and logged.\<close>

definition recordFailure :: "poll_env \<Rightarrow> CDCRecord \<Rightarrow> string \<Rightarrow> database \<Rightarrow> database" where
  "recordFailure env r errorMessage db =
     (if insert_throws env r then db
      else
        insert_on_conflict
          \<lparr> failed_id = 0, session_id = rec_id r, failed_ingested_at = of_Date (time r),
            attempt_count = 1, last_error = Some errorMessage, last_attempt_at = Some (now env),
            created_at = now env, failed_impilo_uid = js_or_null (impilo_uid r),
            failed_impilo_id = js_or_null (impilo_id r), failed_data = stringified_data env r,
            synced = False \<rparr>
          (\<lambda>f. f\<lparr>last_error := Some errorMessage, last_attempt_at := Some (now env),
                  attempt_count := attempt_count f + 1\<rparr>)
          db)"

text \<open>\<open>updateWatermark\<close>: the \<open>Date\<close> goes out as a query parameter; the error of a
  failed update is caught and logged.\<close>

definition updateWatermark :: "poll_env \<Rightarrow> js_date \<Rightarrow> int \<Rightarrow> nat \<Rightarrow> database \<Rightarrow> database" where
  "updateWatermark env ingestedAt sessionId cnt db =
     (if update_throws env then db
      else update_watermark (now env) (sourceTable env) (of_Date ingestedAt) sessionId (int cnt) db)"

text \<open>One round of the loop of \<open>processBatch\<close> on the database, and the loop itself, whose
  state is the database with the two counters.\<close>

definition process_record :: "poll_env \<Rightarrow> CDCRecord \<Rightarrow> database \<Rightarrow> database" where
  "process_record env r db =
     (case processEntry env r of
        None \<Rightarrow> db
      | Some errorMessage \<Rightarrow> recordFailure env r errorMessage db)"

fun process_records ::
  "poll_env \<Rightarrow> CDCRecord list \<Rightarrow> database \<times> nat \<times> nat \<Rightarrow> database \<times> nat \<times> nat" where
  "process_records env [] st = st"
| "process_records env (r # rs) (db, successCount, failureCount) =
     (case processEntry env r of
        None \<Rightarrow> process_records env rs (db, successCount + 1, failureCount)
      | Some errorMessage \<Rightarrow>
          process_records env rs (recordFailure env r errorMessage db, successCount, failureCount + 1))"

definition processBatch :: "poll_env \<Rightarrow> CDCRecord list \<Rightarrow> database \<Rightarrow> database" where
  "processBatch env records db =
     (let (db', successCount, failureCount) = process_records env records (db, 0, 0)
      in if records = [] then db'
         else (let lastRecord = last records
               in updateWatermark env (ingested_at lastRecord) (rec_id lastRecord)
                    (length records) db'))"

text \<open>The rows a poll cycle fetches: \<open>pool.query('SELECT * FROM get_new_sessions($1)')\<close>,
  each row turned into a \<open>CDCRecord\<close>.\<close>

definition fetch_batch :: "poll_env \<Rightarrow> database \<Rightarrow> cdc_error + CDCRecord list" where
  "fetch_batch env db =
     (if fetch_throws env then Inl QueryFailed
      else case get_new_sessions db (limit1 env) (batchSize env) of
             Inl e \<Rightarrow> Inl e
           | Inr rows \<Rightarrow> Inr (map to_record rows))"

text \<open>\<open>pollForNewSessions\<close> as one step: a cycle during which nothing else touches the
  database.\<close>

definition pollForNewSessions :: "CDCService \<Rightarrow> poll_env \<Rightarrow> database \<Rightarrow> database" where
  "pollForNewSessions svc env db =
     (if \<not> isPolling svc then db
      else case fetch_batch env db of
             Inl e \<Rightarrow> db
           | Inr rows \<Rightarrow> (if rows \<noteq> [] then processBatch env rows db else db))"

text \<open>
  Poll cycles as they run in the service. \<open>pollForNewSessions\<close> and \<open>processBatch\<close>
  suspend at every \<open>await\<close>: after the fetch, after each call of the processing callback
  with its \<open>recordFailure\<close>, and before the update of the watermark. Between two of these
  steps other cycles take steps of their own and the writer of the source tables inserts
  rows. A cycle in flight holds its environment, the batch it fetched and the records it
  has not processed yet. The actions are: a tick of the poll task, which fetches a batch
  from the database as it is at that moment and puts a new cycle in flight; the next step
  of the cycle at a given index, which processes its next record or, when none is left,
  updates the watermark from the last record of its batch and completes; and a write to
  the source tables.
\<close>

record poll_cycle =
  cycle_env :: poll_env
  cycle_batch :: "CDCRecord list"
  cycle_pending :: "CDCRecord list"

datatype action =
  Tick poll_env | Advance nat | SourceWrite "string \<Rightarrow> session_row list"

fun act :: "CDCService \<Rightarrow> database \<times> poll_cycle list \<Rightarrow> action \<Rightarrow> database \<times> poll_cycle list" where
  "act svc (db, cycles) (Tick env) =
     (if \<not> isPolling svc then (db, cycles)
      else case fetch_batch env db of
             Inl e \<Rightarrow> (db, cycles)
           | Inr rows \<Rightarrow>
               (if rows \<noteq> []
                then (db, cycles @ [\<lparr> cycle_env = env, cycle_batch = rows,
                                       cycle_pending = rows \<rparr>])
                else (db, cycles)))"
| "act svc (db, cycles) (Advance i) =
     (if length cycles \<le> i then (db, cycles)
      else
        (let c = cycles ! i
         in case cycle_pending c of
              r # rs \<Rightarrow>
                (process_record (cycle_env c) r db, cycles[i := c\<lparr>cycle_pending := rs\<rparr>])
            | [] \<Rightarrow>
                (updateWatermark (cycle_env c) (ingested_at (last (cycle_batch c)))
                   (rec_id (last (cycle_batch c))) (length (cycle_batch c)) db,
                 take i cycles @ drop (Suc i) cycles)))"
| "act svc (db, cycles) (SourceWrite src) = (db\<lparr>source_rows := src\<rparr>, cycles)"

definition run_actions ::
  "CDCService \<Rightarrow> database \<times> poll_cycle list \<Rightarrow> action list \<Rightarrow> database \<times> poll_cycle list" where
  "run_actions svc st acts = foldl (act svc) st acts"

text \<open>
  The position \<open>(timestamp, rowId)\<close> of the watermark of a table, which is the row that
  \<open>update_watermark\<close> writes and \<open>getStats\<close> reports (\<open>WHERE table_name = ...\<close>), and the
  position of a source row; positions are ordered lexicographically, an absent component
  below every value.
\<close>

definition watermark_position :: "string \<Rightarrow> database \<Rightarrow> (timestamp \<times> int option) option" where
  "watermark_position tbl db =
     (case find (\<lambda>w. table_name w = tbl) (cdc_watermark db) of
        None \<Rightarrow> None
      | Some w \<Rightarrow> Some (last_ingested_at w, last_processed_id w))"

definition row_position :: "session_row \<Rightarrow> (timestamp \<times> int option) option" where
  "row_position s = Some (sess_ingested_at s, Some (sess_id s))"

definition in_ledger :: "database \<Rightarrow> int \<Rightarrow> bool" where
  "in_ledger db sid = (\<exists>f \<in> set (cdc_failed_records db). session_id f = sid)"

definition ledger_unique :: "database \<Rightarrow> bool" where
  "ledger_unique db = distinct (map session_id (cdc_failed_records db))"

section \<open>The scheduler (CDCService.start, stop and the cron callbacks)\<close>

text \<open>
  The events of the service: a call of \<open>start\<close> (with the outcome of its \<open>SELECT 1\<close>),
  a call of \<open>stop\<close>, a tick of either cron task, and the completion of a cycle that is
  in flight. A cron callback is \<^verbatim>\<open>() => { void this.pollForNewSessions(); }\<close>: it
  runs the method up to its first \<open>await\<close> and returns, so a cycle that passed the check
  of \<open>isPolling\<close> stays in flight until its completion event.
\<close>

datatype event =
  Start bool | Stop | PollTick | PollFinished | RetryTick | RetryFinished

fun step :: "CDCService \<Rightarrow> event \<Rightarrow> CDCService" where
  "step s (Start db_ok) =
     (if isPolling s then s
      else if db_ok then s\<lparr>isPolling := True, pollTask := True, retryTask := True\<rparr>
      else s\<lparr>isPolling := True\<rparr>)"
| "step s Stop = s\<lparr>isPolling := False, pollTask := False, retryTask := False\<rparr>"
| "step s PollTick =
     (if pollTask s \<and> isPolling s then s\<lparr>pollsInFlight := pollsInFlight s + 1\<rparr> else s)"
| "step s PollFinished = s\<lparr>pollsInFlight := pollsInFlight s - 1\<rparr>"
| "step s RetryTick =
     (if retryTask s \<and> isPolling s then s\<lparr>retriesInFlight := retriesInFlight s + 1\<rparr> else s)"
| "step s RetryFinished = s\<lparr>retriesInFlight := retriesInFlight s - 1\<rparr>"

definition new_service :: CDCService where
  "new_service =
     \<lparr> isPolling = False, pollTask = False, retryTask = False,
       pollsInFlight = 0, retriesInFlight = 0 \<rparr>"

definition run_events :: "event list \<Rightarrow> CDCService" where
  "run_events es = foldl step new_service es"

section \<open>Definitions used to state the properties\<close>

text \<open>
  The score of one configured field, as \<open>calculateMatchScore\<close> computes it in each
  round of its loop, and the object \<open>fieldScores\<close> after the assignments
  \<open>fieldScores[fieldName] = score\<close> in the order given.
\<close>

definition field_score ::
  "'a FHIRPatient_scheme \<Rightarrow> 'b FHIRPatient_scheme \<Rightarrow> string \<times> FieldRule \<Rightarrow> rat option" where
  "field_score patient1 patient2 nf =
     compareFields (extractFieldValue patient1 (snd nf)) (extractFieldValue patient2 (snd nf)) (snd nf)"

definition record_scores :: "(string \<times> rat) list \<Rightarrow> (string \<times> rat) list \<Rightarrow> (string \<times> rat) list" where
  "record_scores fs named = foldl (\<lambda>acc (n, sc). AList.update n sc acc) fs named"

text \<open>
  The rule and the patients of the matching boundary scenario: family name and birth
  date, both compared exactly with weight 10, thresholds 15 and 8.
\<close>

definition scenario_family_rule :: FieldRule where
  "scenario_family_rule =
     \<lparr> algorithm = Exact, threshold = None, fhirpath = ''Patient.name.family'', weight = 10,
       null_handling = Moderate, null_handling_both = Moderate, espath = ''family'',
       description = ''family name'' \<rparr>"

definition scenario_birthDate_rule :: FieldRule where
  "scenario_birthDate_rule =
     \<lparr> algorithm = Exact, threshold = None, fhirpath = ''Patient.birthDate'', weight = 10,
       null_handling = Conservative, null_handling_both = Conservative, espath = ''birthDate'',
       description = ''birth date'' \<rparr>"

definition scenario_rule :: MatchingRule where
  "scenario_rule =
     \<lparr> matchingType = Deterministic, rule_description = ''boundary scenario'',
       rule_fields = [(''family'', scenario_family_rule), (''birthDate'', scenario_birthDate_rule)],
       autoMatchThreshold = 15, potentialMatchThreshold = 8 \<rparr>"

definition scenario_patient :: "string option \<Rightarrow> string option \<Rightarrow> FHIRPatient" where
  "scenario_patient fam bd =
     \<lparr> resourceType = ''Patient'', patient_id = None, identifierList = None,
       name = Some [\<lparr> family = fam, given = None \<rparr>], gender = None, birthDate = bd \<rparr>"

text \<open>
  Two patients for \<open>mergePatientData\<close>: one whose only name entry has given names
  and no family name, and one as the registry returns it.
\<close>

definition nameless_patient :: FHIRPatient where
  "nameless_patient =
     \<lparr> resourceType = ''Patient'', patient_id = None,
       identifierList = Some [\<lparr> ident_system = Some ''urn:impilo:uid'', ident_value = Some ''u-1'' \<rparr>],
       name = Some [\<lparr> family = None, given = Some [''Tariro''] \<rparr>],
       gender = Some ''female'', birthDate = Some ''2024-03-01'' \<rparr>"

definition registered_patient :: FHIRPatient where
  "registered_patient =
     \<lparr> resourceType = ''Patient'', patient_id = Some ''abc'',
       identifierList = Some [\<lparr> ident_system = Some ''urn:impilo:uid'', ident_value = Some ''u-1'' \<rparr>],
       name = Some [\<lparr> family = Some ''Moyo'', given = Some [''Baby''] \<rparr>],
       gender = Some ''female'', birthDate = Some ''2024-03-01'' \<rparr>"

text \<open>
  The format check of \<open>SyncService.decryptData\<close>:
  \<^verbatim>\<open>const [ivB64, encryptedB64] = encryptedText.split(':'); if (!ivB64 || !encryptedB64) throw ...\<close>
\<close>

fun split_on :: "char \<Rightarrow> string \<Rightarrow> string list" where
  "split_on c [] = [[]]"
| "split_on c (x # xs) =
     (if x = c then [] # split_on c xs
      else case split_on c xs of [] \<Rightarrow> [[x]] | p # ps \<Rightarrow> (x # p) # ps)"

definition decryptData_format_ok :: "string \<Rightarrow> bool" where
  "decryptData_format_ok encryptedText =
     (case split_on CHR '':'' encryptedText of
        ivB64 # encryptedB64 # _ \<Rightarrow> ivB64 \<noteq> [] \<and> encryptedB64 \<noteq> []
      | _ \<Rightarrow> False)"

text \<open>
  A small database and environment: one source row past the watermark of the table
  \<open>sessions\<close>, an empty failure ledger, and a service that has been started. No row
  below has an \<open>impilo_uid\<close>, so \<open>set_impilo_uid\<close> is applied nowhere; the
  environment takes the identity for it.
\<close>

definition example_row :: session_row where
  "example_row =
     \<lparr> sess_id = 1, sess_ingested_at = 5, sess_time = 4, sess_impilo_uid = None,
       sess_data = ''{}'' \<rparr>"

definition example_db :: database where
  "example_db =
     \<lparr> source_rows = (\<lambda>t. if t = ''sessions'' then [example_row] else []),
       cdc_watermark =
         [\<lparr> table_name = ''sessions'', last_ingested_at = 0, last_processed_id = None,
            records_processed = 0, wm_last_error = None, updated_at = 0 \<rparr>],
       cdc_failed_records = [],
       failed_seq = 0 \<rparr>"

definition example_env :: "(CDCRecord \<Rightarrow> string option) \<Rightarrow> bool \<Rightarrow> bool \<Rightarrow> poll_env" where
  "example_env callback insert_fails update_fails =
     \<lparr> sourceTable = ''sessions'', batchSize = 100, processEntry = callback,
       set_impilo_uid = (\<lambda>uid d. d), now = 10, limit1 = 0,
       fetch_throws = False, insert_throws = (\<lambda>r. insert_fails), update_throws = update_fails \<rparr>"

definition started_service :: CDCService where
  "started_service =
     \<lparr> isPolling = True, pollTask = True, retryTask = True,
       pollsInFlight = 0, retriesInFlight = 0 \<rparr>"

definition always_fails :: "CDCRecord \<Rightarrow> string option" where
  "always_fails r = Some ''Missing script data for entry undefined''"

definition always_succeeds :: "CDCRecord \<Rightarrow> string option" where
  "always_succeeds r = None"

definition example_failed_row :: failed_row where
  "example_failed_row =
     \<lparr> failed_id = 1, session_id = 1, failed_ingested_at = 4, attempt_count = 1,
       last_error = Some ''first error'', last_attempt_at = Some 3, created_at = 3,
       failed_impilo_uid = None, failed_impilo_id = None, failed_data = ''{}'', synced = False \<rparr>"

text \<open>
  A source row with given id and timestamp (in microseconds), the table \<open>sessions\<close>
  holding given rows, and the database as \<open>setup-cdc.sql\<close> leaves it, with the
  watermark of \<open>sessions\<close> at the origin, over such a table.
\<close>

definition session_at :: "int \<Rightarrow> timestamp \<Rightarrow> session_row" where
  "session_at i t =
     \<lparr> sess_id = i, sess_ingested_at = t, sess_time = t, sess_impilo_uid = None,
       sess_data = ''{}'' \<rparr>"

definition sessions_table :: "session_row list \<Rightarrow> string \<Rightarrow> session_row list" where
  "sessions_table rows t = (if t = ''sessions'' then rows else [])"

definition sessions_db :: "session_row list \<Rightarrow> database" where
  "sessions_db rows =
     \<lparr> source_rows = sessions_table rows,
       cdc_watermark =
         [\<lparr> table_name = ''sessions'', last_ingested_at = 0, last_processed_id = None,
            records_processed = 0, wm_last_error = None, updated_at = 0 \<rparr>],
       cdc_failed_records = [],
       failed_seq = 0 \<rparr>"

section \<open>Jaro and Jaro-Winkler similarity\<close>

text \<open>
  \<open>jaroSimilarity\<close> always returns: the matching loop sets as many flags in
  \<open>s1Matches\<close> as in \<open>s2Matches\<close>, so the \<open>while\<close> loop of the transposition
  count finds a set flag each time it is entered.
\<close>

lemma count_list_update_True:
  "i < length m \<Longrightarrow> \<not> m ! i \<Longrightarrow> count_list (m[i := True]) True = Suc (count_list m True)"
proof (induction m arbitrary: i)
  case Nil
  then show ?case by simp
next
  case (Cons b m)
  then show ?case by (cases i) auto
qed

lemma find_match_Some:
  "find_match c s2 m js = Some j \<Longrightarrow> j \<in> set js \<and> \<not> m ! j"
  by (induction js) (auto split: if_splits)

lemma match_loop_inv:
  assumes "match_loop s1 s2 w is (m1, m2, k) = (m1', m2', k')"
    and "length m1 = n1" and "length m2 = length s2"
    and "count_list m1 True = count_list m2 True"
    and "distinct is" and "\<forall>i \<in> set is. i < n1 \<and> \<not> m1 ! i"
  shows "length m1' = n1 \<and> length m2' = length s2 \<and> count_list m1' True = count_list m2' True"
  using assms
proof (induction "is" arbitrary: m1 m2 k)
  case Nil
  then show ?case by simp
next
  case (Cons i "is")
  let ?start = "nat (max 0 (int i - w))"
  let ?stop = "nat (min (int i + w + 1) (int (length s2)))"
  show ?case
  proof (cases "find_match (s1 ! i) s2 m2 [?start..<?stop]")
    case None
    with Cons.prems have "match_loop s1 s2 w is (m1, m2, k) = (m1', m2', k')"
      by (simp add: Let_def)
    then show ?thesis using Cons.IH Cons.prems by auto
  next
    case (Some j)
    from find_match_Some[OF Some] have j: "j < length m2" "\<not> m2 ! j"
      using Cons.prems(3) by auto
    from Cons.prems have i: "i < length m1" "\<not> m1 ! i" "i \<notin> set is" by auto
    from Some Cons.prems have run:
      "match_loop s1 s2 w is (m1[i := True], m2[j := True], k + 1) = (m1', m2', k')"
      by (simp add: Let_def)
    have cnt: "count_list (m1[i := True]) True = count_list (m2[j := True]) True"
      using i j Cons.prems(4) by (simp add: count_list_update_True)
    have rest: "\<forall>i' \<in> set is. i' < n1 \<and> \<not> (m1[i := True]) ! i'"
      using Cons.prems i by (auto simp: nth_list_update)
    show ?thesis
      using Cons.IH[OF run _ _ cnt _ rest] Cons.prems by simp
  qed
qed

lemma skip_unmatched_Some:
  "0 < count_list (drop k m) True \<Longrightarrow>
     \<exists>k'. skip_unmatched m k = Some k' \<and>
          count_list (drop k m) True = Suc (count_list (drop (Suc k') m) True)"
proof (induction m k rule: skip_unmatched.induct)
  case (1 m k)
  show ?case
  proof (cases "length m \<le> k")
    case True
    with "1.prems" show ?thesis by simp
  next
    case False
    then have d: "drop k m = m ! k # drop (Suc k) m"
      by (simp add: Cons_nth_drop_Suc)
    show ?thesis
    proof (cases "m ! k")
      case True
      then show ?thesis using False d by (simp add: skip_unmatched.simps[of m k])
    next
      case F: False
      with "1.prems" d have "0 < count_list (drop (Suc k) m) True" by simp
      from "1.IH"[OF False F this] show ?thesis
        using False F d by (simp add: skip_unmatched.simps[of m k])
    qed
  qed
qed

lemma transp_loop_returns:
  "length (filter (\<lambda>i. m1 ! i) is) \<le> count_list (drop k m2) True \<Longrightarrow>
     \<exists>t'. transp_loop s1 s2 m1 m2 is k t = Some t'"
proof (induction "is" arbitrary: k t)
  case Nil
  then show ?case by simp
next
  case (Cons i "is")
  show ?case
  proof (cases "m1 ! i")
    case False
    then show ?thesis using Cons by simp
  next
    case True
    with Cons.prems have pos: "0 < count_list (drop k m2) True" by simp
    from skip_unmatched_Some[OF pos] obtain k' where
      k': "skip_unmatched m2 k = Some k'"
          "count_list (drop k m2) True = Suc (count_list (drop (Suc k') m2) True)"
      by blast
    with Cons.prems True
    have "length (filter (\<lambda>i. m1 ! i) is) \<le> count_list (drop (Suc k') m2) True" by simp
    from Cons.IH[OF this] show ?thesis using True k' by simp
  qed
qed

lemma count_by_index:
  "length (filter (\<lambda>i. m ! i) [0..<length m]) = count_list m True"
proof -
  have "count_list m True = length (filter (\<lambda>b. b) m)"
    by (induction m) auto
  also have "\<dots> = length (filter (\<lambda>b. b) (map (\<lambda>i. m ! i) [0..<length m]))"
    by (simp add: map_nth)
  also have "\<dots> = length (filter (\<lambda>i. m ! i) [0..<length m])"
    by (simp add: filter_map o_def)
  finally show ?thesis by simp
qed

lemma jaroSimilarity_returns: "\<exists>j. jaroSimilarity str1 str2 = Some j"
proof -
  let ?s1 = "toLowerCase str1" and ?s2 = "toLowerCase str2"
  let ?w = "int (max (length ?s1) (length ?s2) div 2) - 1"
  obtain m1 m2 k where run:
    "match_loop ?s1 ?s2 ?w [0..<length ?s1]
       (replicate (length ?s1) False, replicate (length ?s2) False, 0) = (m1, m2, k)"
    by (metis prod_cases3)
  have inv: "length m1 = length ?s1 \<and> length m2 = length ?s2
             \<and> count_list m1 True = count_list m2 True"
    by (rule match_loop_inv[OF run]) (auto simp: count_list_0_iff)
  then have "length (filter (\<lambda>i. m1 ! i) [0..<length ?s1]) \<le> count_list (drop 0 m2) True"
    using count_by_index[of m1] by simp
  from transp_loop_returns[OF this] obtain t where
    "transp_loop ?s1 ?s2 m1 m2 [0..<length ?s1] 0 0 = Some t" by blast
  with run have eq: "jaroSimilarity str1 str2 =
      (if str1 = [] \<or> str2 = [] then Some 0
       else if str1 = str2 then Some 1
       else if k = 0 then Some 0
       else Some ((of_nat k / of_nat (length ?s1) + of_nat k / of_nat (length ?s2)
                   + (of_nat k - of_nat t / 2) / of_nat k) / 3))"
    by (simp add: jaroSimilarity_def Let_def)
  have gen: "\<exists>j. (if c1 then Some a else if c2 then Some b else if c3 then Some c else Some d)
                 = Some j" for c1 c2 c3 and a b c d :: rat
    by simp
  show ?thesis unfolding eq by (rule gen)
qed

lemma jaroWinklerSimilarity_returns: "\<exists>v. jaroWinklerSimilarity str1 str2 = Some v"
proof -
  obtain j where "jaroSimilarity str1 str2 = Some j"
    using jaroSimilarity_returns by blast
  then show ?thesis by (simp add: jaroWinklerSimilarity_def Let_def)
qed

text \<open>
  The prefix loop computes the length of the longest common prefix of the two
  lower-cased strings, capped at 4.
\<close>

lemma prefix_loop_lcp:
  "n \<le> length s1 \<Longrightarrow> n \<le> length s2 \<Longrightarrow> k \<le> n \<Longrightarrow>
     prefix_loop s1 s2 [k..<n] p
       = p + min (n - k) (length (longest_common_prefix (drop k s1) (drop k s2)))"
proof (induction "n - k" arbitrary: k p)
  case 0
  then show ?case by simp
next
  case (Suc d)
  then have kn: "k < n" by simp
  then have d1: "drop k s1 = s1 ! k # drop (Suc k) s1" and d2: "drop k s2 = s2 ! k # drop (Suc k) s2"
    using Suc.prems by (simp_all add: Cons_nth_drop_Suc)
  have u: "[k..<n] = k # [Suc k..<n]" using kn by (simp add: upt_conv_Cons)
  have ih: "prefix_loop s1 s2 [Suc k..<n] (p + 1)
       = p + 1 + min (n - Suc k) (length (longest_common_prefix (drop (Suc k) s1) (drop (Suc k) s2)))"
    using Suc.hyps(1)[of "Suc k" "p + 1"] Suc.hyps(2) Suc.prems kn by simp
  have ar: "Suc (min (n - Suc k) L) = min (n - k) (Suc L)" for L
    using kn by arith
  show ?case
  proof (cases "s1 ! k = s2 ! k")
    case True
    then show ?thesis using ih ar by (simp add: u d1 d2)
  next
    case False
    then show ?thesis by (simp add: u d1 d2)
  qed
qed

lemma prefix_loop_commonPrefixLength:
  "prefix_loop (toLowerCase str1) (toLowerCase str2)
     [0..<min 4 (min (length (toLowerCase str1)) (length (toLowerCase str2)))] 0
   = commonPrefixLength str1 str2"
proof -
  let ?s1 = "toLowerCase str1" and ?s2 = "toLowerCase str2"
  have l1: "length (longest_common_prefix ?s1 ?s2) \<le> length ?s1"
    using longest_common_prefix_prefix1[of ?s1 ?s2] by (rule prefix_length_le)
  have l2: "length (longest_common_prefix ?s1 ?s2) \<le> length ?s2"
    using longest_common_prefix_prefix2[of ?s1 ?s2] by (rule prefix_length_le)
  show ?thesis
    using prefix_loop_lcp[of "min 4 (min (length ?s1) (length ?s2))" ?s1 ?s2 0 0] l1 l2
    by (simp add: commonPrefixLength_def)
qed

text \<open>
  Claim C6 as stated fails: for \<open>ab\<close> and \<open>ax\<close> the Jaro similarity is 2/3 and the
  common prefix has length 1, so the formula gives 2/3 + 0.1 * 1 * (1 - 2/3) = 0.7, but
  \<open>jaroWinklerSimilarity\<close> returns 2/3: below a Jaro similarity of 0.7 it returns the Jaro
  similarity without the prefix bonus.
\<close>

theorem jaroWinkler_below_threshold_counterexample:
  "jaroSimilarity ''ab'' ''ax'' = Some (2 / 3)
   \<and> commonPrefixLength ''ab'' ''ax'' = 1
   \<and> jaroWinklerSimilarity ''ab'' ''ax'' = Some (2 / 3)
   \<and> jaroWinklerSimilarity ''ab'' ''ax''
       \<noteq> Some (2 / 3 + (1 / 10) * of_nat (commonPrefixLength ''ab'' ''ax'') * (1 - 2 / 3))"
  by code_simp

text \<open>
  Claim C6, amended. For all strings \<open>str1\<close> and \<open>str2\<close>, \<open>jaroSimilarity\<close> returns
  a value \<open>jaro\<close>, and \<open>jaroWinklerSimilarity\<close> returns \<open>jaro\<close> itself when
  \<open>jaro < 0.7\<close> and \<open>jaro + 0.1 * p * (1 - jaro)\<close> otherwise, where \<open>p\<close> is the length
  of the common prefix of the two case-normalized strings, capped at 4. The similarity of
  MARTHA and MARHTA is 173/180, which is within 0.01 of 0.961.
\<close>

theorem jaroWinkler_formula:
  "(\<exists>jaro. jaroSimilarity str1 str2 = Some jaro
       \<and> jaroWinklerSimilarity str1 str2
           = Some (if jaro < 7 / 10 then jaro
                   else jaro + (1 / 10) * of_nat (commonPrefixLength str1 str2) * (1 - jaro)))
   \<and> jaroWinklerSimilarity ''MARTHA'' ''MARHTA'' = Some (173 / 180)
   \<and> \<bar>173 / 180 - 961 / 1000\<bar> \<le> (1 / 100 :: rat)"
proof -
  obtain jaro where j: "jaroSimilarity str1 str2 = Some jaro"
    using jaroSimilarity_returns by blast
  have "jaroWinklerSimilarity str1 str2
          = Some (if jaro < 7 / 10 then jaro
                  else jaro + (1 / 10) * of_nat (commonPrefixLength str1 str2) * (1 - jaro))"
    using j prefix_loop_commonPrefixLength[of str1 str2]
    by (simp add: jaroWinklerSimilarity_def Let_def)
  moreover have "jaroWinklerSimilarity ''MARTHA'' ''MARHTA'' = Some (173 / 180)"
    by code_simp
  moreover have "\<bar>173 / 180 - 961 / 1000\<bar> \<le> (1 / 100 :: rat)"
    by simp
  ultimately show ?thesis using j by blast
qed

theorem jaroWinkler_formula_witness:
  "jaroSimilarity ''DWAYNE'' ''DUANE'' = Some (37 / 45)
   \<and> commonPrefixLength ''DWAYNE'' ''DUANE'' = 1
   \<and> jaroWinklerSimilarity ''DWAYNE'' ''DUANE'' = Some (37 / 45 + (1 / 10) * 1 * (1 - 37 / 45))"
proof -
  have j: "jaroSimilarity ''DWAYNE'' ''DUANE'' = Some (37 / 45)" by code_simp
  have p: "commonPrefixLength ''DWAYNE'' ''DUANE'' = 1" by code_simp
  from jaroWinkler_formula[of "''DWAYNE''" "''DUANE''"] obtain jaro where
    a: "jaroSimilarity ''DWAYNE'' ''DUANE'' = Some jaro" and
    b: "jaroWinklerSimilarity ''DWAYNE'' ''DUANE''
          = Some (if jaro < 7 / 10 then jaro
                  else jaro + (1 / 10) * of_nat (commonPrefixLength ''DWAYNE'' ''DUANE'')
                                * (1 - jaro))"
    by blast
  from a j have "jaro = 37 / 45" by simp
  with b j p show ?thesis by simp
qed

section \<open>Match scores\<close>

lemma compareFields_returns: "\<exists>sc. compareFields value1 value2 fieldRule = Some sc"
proof (cases value1)
  case None
  then show ?thesis by (cases value2) (simp_all add: compareFields_def)
next
  case v1: (Some v1)
  show ?thesis
  proof (cases value2)
    case None
    with v1 show ?thesis by (simp add: compareFields_def)
  next
    case v2: (Some v2)
    obtain v where "jaroWinklerSimilarity v1 v2 = Some v"
      using jaroWinklerSimilarity_returns by blast
    with v1 v2 show ?thesis
      by (cases "algorithm fieldRule") (simp_all add: compareFields_def Let_def)
  qed
qed

lemma field_scores_exist:
  "\<exists>scores. map (field_score patient1 patient2) fs = map Some scores"
proof (induction fs)
  case Nil
  then show ?case by simp
next
  case (Cons nf fs)
  then obtain scores where s: "map (field_score patient1 patient2) fs = map Some scores" by blast
  obtain sc where "field_score patient1 patient2 nf = Some sc"
    unfolding field_score_def using compareFields_returns by blast
  with s have "map (field_score patient1 patient2) (nf # fs) = map Some (sc # scores)" by simp
  then show ?case by blast
qed

lemma score_fields_sum:
  "map (field_score patient1 patient2) fs = map Some scores \<Longrightarrow>
     score_fields patient1 patient2 fs (acc, tot)
       = Some (record_scores acc (zip (map fst fs) scores), tot + sum_list scores)"
proof (induction fs arbitrary: acc tot scores)
  case Nil
  then show ?case by (simp add: record_scores_def)
next
  case (Cons nf fs)
  obtain n fr where nf: "nf = (n, fr)" by (cases nf)
  from Cons.prems obtain sc rest where sc: "scores = sc # rest"
    "field_score patient1 patient2 nf = Some sc"
    "map (field_score patient1 patient2) fs = map Some rest"
    by (cases scores) auto
  from Cons.IH[OF sc(3)] sc(1,2) nf show ?case
    by (simp add: field_score_def record_scores_def Let_def add.assoc)
qed

text \<open>
  Claim C4. For every rule and every pair of patients \<open>calculateMatchScore\<close> returns;
  its \<open>totalScore\<close> is the sum of the scores of the configured fields, and its
  \<open>matchLevel\<close> is auto-match when \<open>totalScore \<ge> autoMatchThreshold\<close>, else
  potential-match when \<open>totalScore \<ge> potentialMatchThreshold\<close>, else no-match. Under the
  scenario rule a candidate that matches the family name and has no birth date scores 10
  (potential-match), one that matches both scores 20 (auto-match), one that matches
  neither scores 0 (no-match), and \<open>findPotentialDuplicates\<close> returns the second and the
  first, in this order, without the third.
\<close>

theorem matchScore_sum_and_classification:
  "(\<exists>scores.
       map (field_score patient1 patient2) (rule_fields rule) = map Some scores
     \<and> calculateMatchScore patient1 patient2 rule
         = Some \<lparr> totalScore = sum_list scores,
                  fieldScores = record_scores [] (zip (map fst (rule_fields rule)) scores),
                  matchLevel =
                    (if autoMatchThreshold rule \<le> sum_list scores then AutoMatch
                     else if potentialMatchThreshold rule \<le> sum_list scores then PotentialMatch
                     else NoMatch) \<rparr>)
   \<and> calculateMatchScore (scenario_patient (Some ''Moyo'') (Some ''2024-03-01''))
         (scenario_patient (Some ''Moyo'') None) scenario_rule
       = Some \<lparr> totalScore = 10, fieldScores = [(''family'', 10), (''birthDate'', 0)],
                matchLevel = PotentialMatch \<rparr>
   \<and> calculateMatchScore (scenario_patient (Some ''Moyo'') (Some ''2024-03-01''))
         (scenario_patient (Some ''Moyo'') (Some ''2024-03-01'')) scenario_rule
       = Some \<lparr> totalScore = 20, fieldScores = [(''family'', 10), (''birthDate'', 10)],
                matchLevel = AutoMatch \<rparr>
   \<and> calculateMatchScore (scenario_patient (Some ''Moyo'') (Some ''2024-03-01''))
         (scenario_patient (Some ''Dube'') (Some ''2023-11-20'')) scenario_rule
       = Some \<lparr> totalScore = 0, fieldScores = [(''family'', 0), (''birthDate'', 0)],
                matchLevel = NoMatch \<rparr>
   \<and> map_option (map (\<lambda>m. (patient m, totalScore (score m), matchLevel (score m))))
         (findPotentialDuplicates [scenario_rule]
            (scenario_patient (Some ''Moyo'') (Some ''2024-03-01''))
            \<lparr> entry = Some [scenario_patient (Some ''Moyo'') None,
                            scenario_patient (Some ''Moyo'') (Some ''2024-03-01''),
                            scenario_patient (Some ''Dube'') (Some ''2023-11-20'')] \<rparr>)
       = Some [(scenario_patient (Some ''Moyo'') (Some ''2024-03-01''), 20, AutoMatch),
               (scenario_patient (Some ''Moyo'') None, 10, PotentialMatch)]"
proof -
  obtain scores where s: "map (field_score patient1 patient2) (rule_fields rule) = map Some scores"
    using field_scores_exist by blast
  from score_fields_sum[OF s, of "[]" 0] s
  have general: "\<exists>scores.
       map (field_score patient1 patient2) (rule_fields rule) = map Some scores
     \<and> calculateMatchScore patient1 patient2 rule
         = Some \<lparr> totalScore = sum_list scores,
                  fieldScores = record_scores [] (zip (map fst (rule_fields rule)) scores),
                  matchLevel =
                    (if autoMatchThreshold rule \<le> sum_list scores then AutoMatch
                     else if potentialMatchThreshold rule \<le> sum_list scores then PotentialMatch
                     else NoMatch) \<rparr>"
    by (auto simp: calculateMatchScore_def)
  have a: "calculateMatchScore (scenario_patient (Some ''Moyo'') (Some ''2024-03-01''))
         (scenario_patient (Some ''Moyo'') None) scenario_rule
       = Some \<lparr> totalScore = 10, fieldScores = [(''family'', 10), (''birthDate'', 0)],
                matchLevel = PotentialMatch \<rparr>"
    by code_simp
  have b: "calculateMatchScore (scenario_patient (Some ''Moyo'') (Some ''2024-03-01''))
         (scenario_patient (Some ''Moyo'') (Some ''2024-03-01'')) scenario_rule
       = Some \<lparr> totalScore = 20, fieldScores = [(''family'', 10), (''birthDate'', 10)],
                matchLevel = AutoMatch \<rparr>"
    by code_simp
  have c: "calculateMatchScore (scenario_patient (Some ''Moyo'') (Some ''2024-03-01''))
         (scenario_patient (Some ''Dube'') (Some ''2023-11-20'')) scenario_rule
       = Some \<lparr> totalScore = 0, fieldScores = [(''family'', 0), (''birthDate'', 0)],
                matchLevel = NoMatch \<rparr>"
    by code_simp
  have d: "map_option (map (\<lambda>m. (patient m, totalScore (score m), matchLevel (score m))))
         (findPotentialDuplicates [scenario_rule]
            (scenario_patient (Some ''Moyo'') (Some ''2024-03-01''))
            \<lparr> entry = Some [scenario_patient (Some ''Moyo'') None,
                            scenario_patient (Some ''Moyo'') (Some ''2024-03-01''),
                            scenario_patient (Some ''Dube'') (Some ''2023-11-20'')] \<rparr>)
       = Some [(scenario_patient (Some ''Moyo'') (Some ''2024-03-01''), 20, AutoMatch),
               (scenario_patient (Some ''Moyo'') None, 10, PotentialMatch)]"
    by code_simp
  from general a b c d show ?thesis by blast
qed

theorem matchScore_sum_and_classification_witness:
  "\<exists>scores.
      map (field_score (scenario_patient (Some ''Moyo'') (Some ''2024-03-01''))
             (scenario_patient (Some ''Moyo'') None)) (rule_fields scenario_rule)
        = map Some scores
    \<and> sum_list scores = 10
    \<and> potentialMatchThreshold scenario_rule \<le> sum_list scores
    \<and> \<not> autoMatchThreshold scenario_rule \<le> sum_list scores"
proof -
  have t: "autoMatchThreshold scenario_rule = 15 \<and> potentialMatchThreshold scenario_rule = 8"
    by (simp add: scenario_rule_def)
  from matchScore_sum_and_classification
         [of "scenario_patient (Some ''Moyo'') (Some ''2024-03-01'')"
             "scenario_patient (Some ''Moyo'') None" scenario_rule]
  obtain scores where
    s: "map (field_score (scenario_patient (Some ''Moyo'') (Some ''2024-03-01''))
               (scenario_patient (Some ''Moyo'') None)) (rule_fields scenario_rule)
          = map Some scores"
    and v: "sum_list scores = 10"
    by auto
  with t show ?thesis by auto
qed

text \<open>
  Claim C5 as stated fails: \<open>Smith\<close> and \<open>SMITH\<close> are equal after case
  normalization, and the exact comparison scores them 0, not the weight 10. The
  \<open>exact\<close> case of \<open>compareFields\<close> is \<open>value1 === value2\<close>, without normalization.
\<close>

theorem exact_is_case_sensitive_counterexample:
  "toLowerCase ''Smith'' = toLowerCase ''SMITH''
   \<and> compareFields (Some ''Smith'') (Some ''SMITH'') scenario_family_rule = Some 0
   \<and> weight scenario_family_rule = 10"
  by code_simp

text \<open>
  Claim C5, amended. For every field rule with algorithm \<open>exact\<close> and every pair of
  non-null extracted values, the score is the full weight when the two strings are
  identical, character by character and with case, and 0 otherwise.
\<close>

theorem exact_compares_strings:
  "algorithm fieldRule = Exact \<Longrightarrow>
     compareFields (Some v1) (Some v2) fieldRule
       = Some (if v1 = v2 then weight fieldRule else 0)"
  by (simp add: compareFields_def)

theorem exact_compares_strings_witness:
  "algorithm scenario_family_rule = Exact
   \<and> compareFields (Some ''Smith'') (Some ''Smith'') scenario_family_rule = Some 10
   \<and> compareFields (Some ''Smith'') (Some ''SMITH'') scenario_family_rule = Some 0"
  using exact_compares_strings[of scenario_family_rule "''Smith''" "''Smith''"]
        exact_compares_strings[of scenario_family_rule "''Smith''" "''SMITH''"]
  by (simp add: scenario_family_rule_def)

lemma extract_never_empty: "extractFieldValue p fieldRule \<noteq> Some []"
  by (simp add: extractFieldValue_def js_or_null_def js_truthy_def split: option.splits)

text \<open>
  Claim C10. When the value found at the path of a configured field is the empty string
  on either patient, \<open>extractFieldValue\<close> yields null for it and the score of the field
  is the null score: that of \<open>null_handling_both\<close> when the other value is null as well,
  that of \<open>null_handling\<close> otherwise; the null score is 0 for conservative, half the
  weight for moderate, the weight for greedy. No extracted value is the empty string, so
  no comparison algorithm is applied to one.
\<close>

theorem empty_string_is_missing:
  "(fieldAtPath patient1 (espath fieldRule) = Some [] \<longrightarrow>
      extractFieldValue patient1 fieldRule = None
      \<and> compareFields (extractFieldValue patient1 fieldRule) (extractFieldValue patient2 fieldRule)
            fieldRule
          = Some (getNullScore
                    (if extractFieldValue patient2 fieldRule = None
                     then null_handling_both fieldRule else null_handling fieldRule)
                    (weight fieldRule)))
   \<and> (fieldAtPath patient2 (espath fieldRule) = Some [] \<longrightarrow>
      extractFieldValue patient2 fieldRule = None
      \<and> compareFields (extractFieldValue patient1 fieldRule) (extractFieldValue patient2 fieldRule)
            fieldRule
          = Some (getNullScore
                    (if extractFieldValue patient1 fieldRule = None
                     then null_handling_both fieldRule else null_handling fieldRule)
                    (weight fieldRule)))
   \<and> extractFieldValue patient1 fieldRule \<noteq> Some []
   \<and> extractFieldValue patient2 fieldRule \<noteq> Some []
   \<and> getNullScore Conservative w = 0
   \<and> getNullScore Moderate w = w / 2
   \<and> getNullScore Greedy w = w"
  by (auto simp: extractFieldValue_def js_or_null_def js_truthy_def compareFields_def
                 handleBothNull_def handleOneNull_def getNullScore_def
           split: option.splits)

theorem empty_string_is_missing_witness:
  "fieldAtPath (scenario_patient (Some '''') None) (espath scenario_family_rule) = Some []
   \<and> compareFields (extractFieldValue (scenario_patient (Some '''') None) scenario_family_rule)
        (extractFieldValue (scenario_patient (Some ''Moyo'') None) scenario_family_rule)
        scenario_family_rule = Some 5"
proof -
  have h: "fieldAtPath (scenario_patient (Some '''') None) (espath scenario_family_rule) = Some []"
    by code_simp
  have e: "extractFieldValue (scenario_patient (Some ''Moyo'') None) scenario_family_rule \<noteq> None"
    by code_simp
  have g: "getNullScore (null_handling scenario_family_rule) (weight scenario_family_rule) = 5"
    by code_simp
  from empty_string_is_missing[of "scenario_patient (Some '''') None" scenario_family_rule
         "scenario_patient (Some ''Moyo'') None" 10] h e g
  show ?thesis by auto
qed

section \<open>Merging into the existing patient\<close>

text \<open>
  Claim C9 as stated fails: a new patient whose name list is present, with the given
  name Tariro and no family name in its first entry, comes out of the merge with the name
  list of the existing patient; its own name entry is gone.
\<close>

theorem merge_overwrites_name_counterexample:
  "name nameless_patient = Some [\<lparr> family = None, given = Some [''Tariro''] \<rparr>]
   \<and> name (mergePatientData nameless_patient registered_patient)
       = Some [\<lparr> family = Some ''Moyo'', given = Some [''Baby''] \<rparr>]"
  by code_simp

text \<open>
  Claim C9, amended. In the merged patient the identifier list is that of the new patient
  when it is non-empty, and that of the existing patient otherwise; birth date and gender
  are those of the new patient unless they are absent or empty there and non-empty on the
  existing patient; the name list is that of the new patient unless it is absent, empty,
  or its first entry has no family name, and the existing patient has a non-empty name
  list, which then replaces it as a whole. Every other field is that of the new patient.
\<close>

theorem merge_fills_missing_fields:
  "identifierList (mergePatientData newPatient existingPatient)
     = (if nonempty_array (identifierList newPatient) then identifierList newPatient
        else identifierList existingPatient)
   \<and> birthDate (mergePatientData newPatient existingPatient)
     = (if \<not> js_truthy (birthDate newPatient) \<and> js_truthy (birthDate existingPatient)
        then birthDate existingPatient else birthDate newPatient)
   \<and> gender (mergePatientData newPatient existingPatient)
     = (if \<not> js_truthy (gender newPatient) \<and> js_truthy (gender existingPatient)
        then gender existingPatient else gender newPatient)
   \<and> name (mergePatientData newPatient existingPatient)
     = (if name_missing (name newPatient) \<and> nonempty_array (name existingPatient)
        then name existingPatient else name newPatient)
   \<and> resourceType (mergePatientData newPatient existingPatient) = resourceType newPatient
   \<and> patient_id (mergePatientData newPatient existingPatient) = patient_id newPatient
   \<and> FHIRPatient.more (mergePatientData newPatient existingPatient) = FHIRPatient.more newPatient"
  by (simp add: mergePatientData_def Let_def)

theorem merge_fills_missing_fields_witness:
  "mergePatientData registered_patient nameless_patient = registered_patient
   \<and> name (mergePatientData (scenario_patient None None) registered_patient)
       = name registered_patient"
proof -
  have "name_missing (name (scenario_patient None None)) \<and> nonempty_array (name registered_patient)"
    by code_simp
  moreover have "\<not> name_missing (name registered_patient)
     \<and> nonempty_array (identifierList registered_patient)
     \<and> js_truthy (birthDate registered_patient) \<and> js_truthy (gender registered_patient)"
    by code_simp
  ultimately show ?thesis
    using merge_fills_missing_fields[of registered_patient nameless_patient]
          merge_fills_missing_fields[of "scenario_patient None None" registered_patient]
    by (auto intro: FHIRPatient.equality)
qed

section \<open>The failure ledger\<close>

lemma insert_on_conflict_unique:
  assumes "\<And>f. session_id (g f) = session_id f" and "ledger_unique db"
  shows "ledger_unique (insert_on_conflict nr g db)"
proof (cases "\<exists>f \<in> set (cdc_failed_records db). session_id f = session_id nr")
  case True
  have eq: "map session_id (map (\<lambda>f. if session_id f = session_id nr then g f else f) xs)
          = map session_id xs" for xs
    using assms(1) by (induction xs) auto
  from True assms(2) show ?thesis
    by (simp add: insert_on_conflict_def Let_def ledger_unique_def eq del: map_map)
next
  case False
  with assms(2) show ?thesis
    by (auto simp: insert_on_conflict_def Let_def ledger_unique_def)
qed

lemma recordFailure_unique:
  "ledger_unique db \<Longrightarrow> ledger_unique (recordFailure env r msg db)"
  by (simp add: recordFailure_def insert_on_conflict_unique)

lemma ledger_unique_cong:
  "cdc_failed_records a = cdc_failed_records b \<Longrightarrow> ledger_unique a = ledger_unique b"
  by (simp add: ledger_unique_def)

lemma process_records_unique:
  "ledger_unique db \<Longrightarrow> ledger_unique (fst (process_records env rs (db, s, f)))"
  by (induction rs arbitrary: db s f) (auto split: option.splits simp: recordFailure_unique)

lemma update_watermark_ledger [simp]:
  "cdc_failed_records (update_watermark n t ts i c db) = cdc_failed_records db"
  by (simp add: update_watermark_def)

lemma updateWatermark_ledger [simp]:
  "cdc_failed_records (updateWatermark env ts i c db) = cdc_failed_records db"
  by (simp add: updateWatermark_def)

lemma processBatch_ledger:
  "cdc_failed_records (processBatch env rows db)
     = cdc_failed_records (fst (process_records env rows (db, 0, 0)))"
  by (simp add: processBatch_def Let_def split: prod.splits)

lemma poll_nonempty:
  "isPolling svc \<Longrightarrow> fetch_batch env db = Inr rows \<Longrightarrow> rows \<noteq> [] \<Longrightarrow>
     pollForNewSessions svc env db = processBatch env rows db"
  by (simp add: pollForNewSessions_def)

lemma distinct_ids_same:
  "distinct (map session_id xs) \<Longrightarrow> f \<in> set xs \<Longrightarrow> g \<in> set xs \<Longrightarrow>
     session_id g = session_id f \<Longrightarrow> g = f"
  by (meson distinct_map inj_onD)

lemma map_ids_unchanged:
  assumes "\<And>f. session_id (g f) = session_id f"
  shows "map session_id (map (\<lambda>f. if P f then g f else f) xs) = map session_id xs"
  using assms by (induction xs) auto

lemma record_failed_session_unique:
  "ledger_unique db \<Longrightarrow> ledger_unique (record_failed_session n sid ing err iid dat syn db)"
  by (simp add: record_failed_session_def insert_on_conflict_unique)

lemma remove_failed_session_unique:
  "ledger_unique db \<Longrightarrow> ledger_unique (remove_failed_session p_id db)"
  by (simp add: remove_failed_session_def ledger_unique_def distinct_map_filter)

lemma update_failed_session_retry_unique:
  "ledger_unique db \<Longrightarrow> ledger_unique (update_failed_session_retry n p_id err syn db)"
  by (simp add: update_failed_session_retry_def ledger_unique_def map_ids_unchanged del: map_map)

lemma poll_unique:
  "ledger_unique db \<Longrightarrow> ledger_unique (pollForNewSessions svc env db)"
proof (cases "isPolling svc \<and> (\<exists>rows. fetch_batch env db = Inr rows \<and> rows \<noteq> [])")
  case True
  assume u: "ledger_unique db"
  from True obtain rs where rs: "isPolling svc" "fetch_batch env db = Inr rs" "rs \<noteq> []" by blast
  have "ledger_unique (processBatch env rs db)
          = ledger_unique (fst (process_records env rs (db, 0, 0)))"
    by (rule ledger_unique_cong) (rule processBatch_ledger)
  with u rs show ?thesis by (simp add: poll_nonempty process_records_unique)
next
  case False
  assume u: "ledger_unique db"
  from False have "pollForNewSessions svc env db = db"
    by (cases "fetch_batch env db") (auto simp: pollForNewSessions_def)
  with u show ?thesis by simp
qed

lemma insert_on_conflict_updates_entry:
  assumes u: "ledger_unique db" and f: "f \<in> set (cdc_failed_records db)"
    "session_id f = session_id new_row"
  shows "cdc_failed_records (insert_on_conflict new_row on_conflict db)
           = map (\<lambda>g. if g = f then on_conflict f else g) (cdc_failed_records db)"
proof -
  have ex: "\<exists>g \<in> set (cdc_failed_records db). session_id g = session_id new_row"
    using f by blast
  have same: "(session_id g = session_id new_row) = (g = f)"
    if "g \<in> set (cdc_failed_records db)" for g
    using distinct_ids_same[OF u[unfolded ledger_unique_def] f(1) that] f(2) by auto
  have "map (\<lambda>g. if session_id g = session_id new_row then on_conflict g else g)
            (cdc_failed_records db)
        = map (\<lambda>g. if g = f then on_conflict f else g) (cdc_failed_records db)"
    by (rule map_cong) (auto simp: same)
  with ex show ?thesis
    by (simp add: insert_on_conflict_def Let_def)
qed

lemma recordFailure_updates_entry:
  assumes "ledger_unique db" and "f \<in> set (cdc_failed_records db)" and "session_id f = rec_id r"
    and "\<not> insert_throws env r"
  shows "cdc_failed_records (recordFailure env r msg db)
           = map (\<lambda>g. if g = f
                       then f\<lparr>last_error := Some msg, last_attempt_at := Some (now env),
                              attempt_count := attempt_count f + 1\<rparr>
                       else g)
                 (cdc_failed_records db)"
  using assms by (simp add: recordFailure_def insert_on_conflict_updates_entry)

lemma record_failed_session_updates_entry:
  assumes "ledger_unique db" and "f \<in> set (cdc_failed_records db)"
    and "session_id f = p_session_id"
  shows "cdc_failed_records
           (record_failed_session n p_session_id p_ingested_at p_error p_impilo_id p_data
              p_synced db)
           = map (\<lambda>g. if g = f
                       then f\<lparr>last_error := Some p_error, last_attempt_at := Some n,
                              attempt_count := attempt_count f + 1, synced := p_synced\<rparr>
                       else g)
                 (cdc_failed_records db)"
  using assms by (simp add: record_failed_session_def insert_on_conflict_updates_entry)

text \<open>
  Claim C8. The session ids of the failure ledger are pairwise distinct: this holds of the
  empty ledger and is kept by \<open>recordFailure\<close>, by the SQL functions
  \<open>record_failed_session\<close>, \<open>remove_failed_session\<close> and
  \<open>update_failed_session_retry\<close>, and by a whole poll cycle. When a failure is written
  for a session that has an entry, by the insert of \<open>recordFailure\<close> or by
  \<open>record_failed_session\<close>, the ledger keeps its length, the entry gets the new
  \<open>last_error\<close>, \<open>last_attempt_at\<close> set to the current time and \<open>attempt_count\<close>
  increased by 1, and all other entries are unchanged.
\<close>

theorem ledger_one_entry_per_session:
  "ledger_unique (db\<lparr>cdc_failed_records := []\<rparr>)
   \<and> (ledger_unique db \<longrightarrow>
        ledger_unique (recordFailure env r msg db)
        \<and> ledger_unique (record_failed_session n p_session_id p_ingested_at p_error p_impilo_id
                           p_data p_synced db)
        \<and> ledger_unique (remove_failed_session p_id db)
        \<and> ledger_unique (update_failed_session_retry n p_id p_error p_synced db)
        \<and> ledger_unique (pollForNewSessions svc env db))
   \<and> (ledger_unique db \<and> f \<in> set (cdc_failed_records db) \<and> session_id f = rec_id r
        \<and> \<not> insert_throws env r \<longrightarrow>
        cdc_failed_records (recordFailure env r msg db)
          = map (\<lambda>g. if g = f
                      then f\<lparr>last_error := Some msg, last_attempt_at := Some (now env),
                             attempt_count := attempt_count f + 1\<rparr>
                      else g)
                (cdc_failed_records db)
        \<and> length (cdc_failed_records (recordFailure env r msg db))
            = length (cdc_failed_records db))
   \<and> (ledger_unique db \<and> f \<in> set (cdc_failed_records db) \<and> session_id f = p_session_id \<longrightarrow>
        cdc_failed_records
          (record_failed_session n p_session_id p_ingested_at p_error p_impilo_id p_data
             p_synced db)
          = map (\<lambda>g. if g = f
                      then f\<lparr>last_error := Some p_error, last_attempt_at := Some n,
                             attempt_count := attempt_count f + 1, synced := p_synced\<rparr>
                      else g)
                (cdc_failed_records db))"
proof -
  have A: "ledger_unique (db\<lparr>cdc_failed_records := []\<rparr>)"
    by (simp add: ledger_unique_def)
  have B: "ledger_unique db \<longrightarrow>
        ledger_unique (recordFailure env r msg db)
        \<and> ledger_unique (record_failed_session n p_session_id p_ingested_at p_error p_impilo_id
                           p_data p_synced db)
        \<and> ledger_unique (remove_failed_session p_id db)
        \<and> ledger_unique (update_failed_session_retry n p_id p_error p_synced db)
        \<and> ledger_unique (pollForNewSessions svc env db)"
    by (simp add: recordFailure_unique record_failed_session_unique remove_failed_session_unique
          update_failed_session_retry_unique poll_unique)
  have C: "cdc_failed_records (recordFailure env r msg db)
          = map (\<lambda>g. if g = f
                      then f\<lparr>last_error := Some msg, last_attempt_at := Some (now env),
                             attempt_count := attempt_count f + 1\<rparr>
                      else g)
                (cdc_failed_records db)
        \<and> length (cdc_failed_records (recordFailure env r msg db))
            = length (cdc_failed_records db)"
    if "ledger_unique db" "f \<in> set (cdc_failed_records db)" "session_id f = rec_id r"
       "\<not> insert_throws env r"
    using recordFailure_updates_entry[OF that, of msg] by simp
  have D: "cdc_failed_records
          (record_failed_session n p_session_id p_ingested_at p_error p_impilo_id p_data
             p_synced db)
          = map (\<lambda>g. if g = f
                      then f\<lparr>last_error := Some p_error, last_attempt_at := Some n,
                             attempt_count := attempt_count f + 1, synced := p_synced\<rparr>
                      else g)
                (cdc_failed_records db)"
    if "ledger_unique db" "f \<in> set (cdc_failed_records db)" "session_id f = p_session_id"
    using that by (rule record_failed_session_updates_entry)
  from A B C D show ?thesis by blast
qed

theorem ledger_one_entry_per_session_witness:
  "ledger_unique (example_db\<lparr>cdc_failed_records := [example_failed_row]\<rparr>)
   \<and> cdc_failed_records
        (recordFailure (example_env always_fails False False) (to_record example_row)
           ''second error'' (example_db\<lparr>cdc_failed_records := [example_failed_row]\<rparr>))
       = [example_failed_row\<lparr>last_error := Some ''second error'', last_attempt_at := Some 10,
                             attempt_count := 2\<rparr>]"
proof -
  let ?db = "example_db\<lparr>cdc_failed_records := [example_failed_row]\<rparr>"
  let ?env = "example_env always_fails False False"
  have h1: "ledger_unique ?db" by (simp add: ledger_unique_def)
  have h2: "example_failed_row \<in> set (cdc_failed_records ?db)" by simp
  have h3: "session_id example_failed_row = rec_id (to_record example_row)" by code_simp
  have h4: "\<not> insert_throws ?env (to_record example_row)" by (simp add: example_env_def)
  have h5: "now ?env = 10" by (simp add: example_env_def)
  have h6: "attempt_count example_failed_row = 1" by (simp add: example_failed_row_def)
  from ledger_one_entry_per_session[where db = ?db and env = ?env
         and r = "to_record example_row" and msg = "''second error''"
         and f = example_failed_row]
       h1 h2 h3 h4 h5 h6
  show ?thesis by simp
qed

text \<open>
  Claim C3: the code does not do what the claim says. \<open>recordFailure\<close> writes the
  \<open>impilo_id\<close> and the JSON text of \<open>data\<close> of the record as they are: for a record
  with \<open>impilo_id\<close> IMP-001 and \<open>data\<close> \<open>{}\<close> the ledger row holds exactly these two
  strings, neither of which passes the format check of \<open>decryptData\<close>; and a row fetched
  by a poll cycle, which has no \<open>impilo_id\<close>, is stored with a null \<open>impilo_id\<close>.
\<close>

theorem recordFailure_stores_plaintext:
  "map (\<lambda>f. (session_id f, failed_impilo_id f, failed_data f))
       (cdc_failed_records
          (recordFailure (example_env always_fails False False)
             \<lparr> rec_id = 42, ingested_at = 100, time = 90, impilo_uid = None,
               impilo_id = Some ''IMP-001'', data = ''{}'' \<rparr>
             ''Missing script data for entry undefined'' example_db))
     = [(42, Some ''IMP-001'', ''{}'')]
   \<and> \<not> decryptData_format_ok ''IMP-001'' \<and> \<not> decryptData_format_ok ''{}''
   \<and> map (\<lambda>f. (session_id f, failed_impilo_id f, failed_data f))
       (cdc_failed_records
          (pollForNewSessions started_service (example_env always_fails False False) example_db))
     = [(1, None, ''{}'')]"
  by code_simp

section \<open>Poll cycles and the watermark\<close>

text \<open>
  A cycle whose steps follow one another with no other action in between does what
  \<open>pollForNewSessions\<close> does in one step.
\<close>

lemma process_records_fold:
  "fst (process_records env rs (db, s, f)) = foldl (\<lambda>d r. process_record env r d) db rs"
  by (induction rs arbitrary: db s f) (auto simp: process_record_def split: option.splits)

lemma advance_pending:
  "foldl (act svc) (db, [\<lparr> cycle_env = env, cycle_batch = b, cycle_pending = rs \<rparr>])
       (replicate (length rs) (Advance 0))
     = (foldl (\<lambda>d r. process_record env r d) db rs,
        [\<lparr> cycle_env = env, cycle_batch = b, cycle_pending = [] \<rparr>])"
  by (induction rs arbitrary: db) simp_all

lemma serial_cycle:
  assumes "isPolling svc" and "fetch_batch env db = Inr rows" and "rows \<noteq> []"
  shows "run_actions svc (db, []) (Tick env # replicate (length rows) (Advance 0) @ [Advance 0])
           = (pollForNewSessions svc env db, [])"
proof -
  obtain db' sc fc where run: "process_records env rows (db, 0, 0) = (db', sc, fc)"
    by (metis prod_cases3)
  then have db': "db' = foldl (\<lambda>d r. process_record env r d) db rows"
    using process_records_fold[of env rows db 0 0] by simp
  have "pollForNewSessions svc env db
          = updateWatermark env (ingested_at (last rows)) (rec_id (last rows)) (length rows) db'"
    using assms run by (simp add: pollForNewSessions_def processBatch_def Let_def)
  then show ?thesis
    using assms db' by (simp add: run_actions_def advance_pending)
qed

text \<open>
  Claim C1: the code does not do what the claim says, in two ways. First, when the
  processing of a fetched row fails and the insert into the ledger throws,
  \<open>recordFailure\<close> only logs the error: after the cycle the ledger is empty, the
  watermark stands at the position of the row, and the next cycle fetches nothing, so
  the row is neither in the ledger nor ever read again. Second, the watermark is written
  from a \<open>Date\<close>: for a row inserted 1500 microseconds after the origin and processed
  with success the watermark is written as 1000 microseconds, below the row; the row is
  not covered and the next cycle fetches it again.
\<close>

theorem fetched_row_unaccounted:
  "fetch_batch (example_env always_fails True False) (sessions_db [session_at 1 5000])
     = Inr [to_record (session_at 1 5000)]
   \<and> processEntry (example_env always_fails True False) (to_record (session_at 1 5000)) \<noteq> None
   \<and> \<not> in_ledger
         (pollForNewSessions started_service (example_env always_fails True False)
            (sessions_db [session_at 1 5000])) 1
   \<and> watermark_position ''sessions''
        (pollForNewSessions started_service (example_env always_fails True False)
           (sessions_db [session_at 1 5000]))
       = row_position (session_at 1 5000)
   \<and> fetch_batch (example_env always_fails True False)
        (pollForNewSessions started_service (example_env always_fails True False)
           (sessions_db [session_at 1 5000]))
       = Inr []
   \<and> fetch_batch (example_env always_succeeds False False) (sessions_db [session_at 1 1500])
       = Inr [to_record (session_at 1 1500)]
   \<and> watermark_position ''sessions''
        (pollForNewSessions started_service (example_env always_succeeds False False)
           (sessions_db [session_at 1 1500]))
       = Some (1000, Some 1)
   \<and> Some (1000, Some 1) < row_position (session_at 1 1500)
   \<and> fetch_batch (example_env always_succeeds False False)
        (pollForNewSessions started_service (example_env always_succeeds False False)
           (sessions_db [session_at 1 1500]))
       = Inr [to_record (session_at 1 1500)]"
  by code_simp

text \<open>
  Claim C2: the code does not do what the claim says. The position of the watermark
  moves back in two ways. In cycles that run one after the other: the first cycle
  fetches row 5, inserted at 1500 microseconds, and writes the position (1000, 5), the
  timestamp cut to the millisecond; row 2 is then inserted at 1800 microseconds; the
  second cycle fetches row 5 again and row 2, and writes (1000, 2), which is below
  (1000, 5). In overlapping cycles: a first tick fetches row 1; row 2 is inserted; a
  second tick fetches rows 1 and 2, processes them and writes (7000, 2); then the cycle
  of the first tick processes row 1 and writes (5000, 1) over it.
\<close>

theorem watermark_moves_back:
  "watermark_position ''sessions''
      (pollForNewSessions started_service (example_env always_succeeds False False)
         (sessions_db [session_at 5 1500]))
     = Some (1000, Some 5)
   \<and> fetch_batch (example_env always_succeeds False False)
        ((pollForNewSessions started_service (example_env always_succeeds False False)
            (sessions_db [session_at 5 1500]))
         \<lparr>source_rows := sessions_table [session_at 5 1500, session_at 2 1800]\<rparr>)
       = Inr [to_record (session_at 5 1500), to_record (session_at 2 1800)]
   \<and> watermark_position ''sessions''
        (pollForNewSessions started_service (example_env always_succeeds False False)
           ((pollForNewSessions started_service (example_env always_succeeds False False)
               (sessions_db [session_at 5 1500]))
            \<lparr>source_rows := sessions_table [session_at 5 1500, session_at 2 1800]\<rparr>))
       = Some (1000, Some 2)
   \<and> Some (1000, Some 2) < (Some (1000, Some 5) :: (timestamp \<times> int option) option)
   \<and> watermark_position ''sessions''
        (fst (run_actions started_service (sessions_db [session_at 1 5000], [])
                [Tick (example_env always_succeeds False False),
                 SourceWrite (sessions_table [session_at 1 5000, session_at 2 7000]),
                 Tick (example_env always_succeeds False False),
                 Advance 1, Advance 1, Advance 1]))
       = Some (7000, Some 2)
   \<and> watermark_position ''sessions''
        (fst (run_actions started_service (sessions_db [session_at 1 5000], [])
                [Tick (example_env always_succeeds False False),
                 SourceWrite (sessions_table [session_at 1 5000, session_at 2 7000]),
                 Tick (example_env always_succeeds False False),
                 Advance 1, Advance 1, Advance 1,
                 Advance 0, Advance 0]))
       = Some (5000, Some 1)
   \<and> Some (5000, Some 1) < (Some (7000, Some 2) :: (timestamp \<times> int option) option)"
  by code_simp

section \<open>Poll ticks\<close>

lemma foldl_polltick:
  "pollTask s \<and> isPolling s \<Longrightarrow>
     pollsInFlight (foldl step s (replicate n PollTick)) = pollsInFlight s + n
     \<and> pollTask (foldl step s (replicate n PollTick)) \<and> isPolling (foldl step s (replicate n PollTick))"
  by (induction n arbitrary: s) auto

text \<open>
  Claim C7 as stated fails: after \<open>start\<close>, a second tick that fires while the cycle of
  the first tick is still in flight starts a second cycle; two cycles are then running.
\<close>

theorem overlapping_ticks_counterexample:
  "pollsInFlight (run_events [Start True, PollTick]) = 1
   \<and> pollsInFlight (run_events [Start True, PollTick, PollTick]) = 2"
  by code_simp

text \<open>
  Claim C7, amended. \<open>isPolling\<close> is set by \<open>start\<close> and cleared by \<open>stop\<close> only;
  neither a tick nor the completion of a cycle changes it. A poll tick starts a cycle
  whenever the service is started, whether or not earlier cycles are still running: after
  \<open>start\<close> and \<open>n\<close> ticks with no cycle completed, \<open>n\<close> cycles are in flight. A tick
  is skipped only when the service is not started.
\<close>

theorem ticks_overlap_while_started:
  "pollsInFlight (run_events (Start True # replicate n PollTick)) = n
   \<and> pollsInFlight (step s PollTick)
       = (if pollTask s \<and> isPolling s then pollsInFlight s + 1 else pollsInFlight s)
   \<and> isPolling (step s PollTick) = isPolling s
   \<and> isPolling (step s PollFinished) = isPolling s"
  using foldl_polltick[of "step new_service (Start True)" n]
  by (simp add: run_events_def new_service_def)

theorem ticks_overlap_while_started_witness:
  "pollsInFlight (run_events (Start True # replicate 3 PollTick)) = 3
   \<and> pollsInFlight (step started_service PollTick) = 1
   \<and> pollsInFlight (step new_service PollTick) = 0"
  using ticks_overlap_while_started[of 3 started_service]
        ticks_overlap_while_started[of 3 new_service]
  by (simp add: started_service_def new_service_def)

end
